theory Spec2Isabelle
  imports Main
begin

section \<open>The fixture updater: shifting the UTC timestamps of a Django fixture\<close>

text \<open>
  A shallow embedding of \<^verbatim>\<open>fixture-updater.py\<close>. The script loads a JSON fixture (an
  array of objects, each with a \<^verbatim>\<open>fields\<close> object), collects every string under the
  \<^verbatim>\<open>fields\<close> subtrees that parses as a UTC timestamp, computes one delta that moves the
  latest timestamp onto a target time, rewrites every collected string in place and writes
  the tree out.

  Conventions of the model:
  \<^item> a Python \<^verbatim>\<open>str\<close> is a \<^typ>\<open>string\<close>; the characters are those with a code point below
    256, among which the regular expression class \<^verbatim>\<open>\d\<close> has exactly the ten members
    \<^verbatim>\<open>0\<close> to \<^verbatim>\<open>9\<close>;
  \<^item> an aware UTC \<^verbatim>\<open>datetime\<close> is the number of microseconds since
    \<^verbatim>\<open>0001-01-01T00:00:00Z\<close> in the proleptic Gregorian calendar, an \<^typ>\<open>int\<close> in the range
    that \<^verbatim>\<open>datetime.min\<close> and \<^verbatim>\<open>datetime.max\<close> bound; a \<^verbatim>\<open>timedelta\<close> is a number of
    microseconds;
  \<^item> an exception is a value of the type \<open>error\<close>, returned in \<open>Inl\<close>;
  \<^item> the library functions \<^verbatim>\<open>datetime.fromisoformat\<close>, \<^verbatim>\<open>strftime\<close>, \<^verbatim>\<open>date.isoformat\<close> and
    the \<^verbatim>\<open>datetime\<close> arithmetic follow the documentation of Python 3.11 to 3.13 (the
    script needs \<^verbatim>\<open>datetime.UTC\<close>, new in 3.11).
\<close>

subsection \<open>Exceptions\<close>

datatype error =
    TypeError string
  | ValueError
  | OverflowError
  | RuntimeError string
  | KeyError string

subsection \<open>Decimal digits\<close>

definition is_digit :: "char \<Rightarrow> bool" where
  "is_digit c \<longleftrightarrow> c \<in> set ''0123456789''"

definition digit_val :: "char \<Rightarrow> int" where
  "digit_val c = of_char c - 48"

definition digit_char :: "int \<Rightarrow> char" where
  "digit_char n = char_of (48 + n)"

text \<open>\<^verbatim>\<open>int(s)\<close> on a string of decimal digits.\<close>

definition num :: "string \<Rightarrow> int" where
  "num s = foldl (\<lambda>a c. 10 * a + digit_val c) 0 s"

text \<open>The format specification \<^verbatim>\<open>0wd\<close> on a number below \<open>10 ^ w\<close>: \<open>w\<close> digits, zero padded.\<close>

fun pad :: "nat \<Rightarrow> int \<Rightarrow> string" where
  "pad 0 k = []"
| "pad (Suc w) k = pad w (k div 10) @ [digit_char (k mod 10)]"

text \<open>\<^verbatim>\<open>str(n)\<close> on a non-negative integer, as the f-strings of the error messages use it.\<close>

fun digits_of :: "nat \<Rightarrow> int \<Rightarrow> string" where
  "digits_of 0 k = []"
| "digits_of (Suc fuel) k =
     (if k < 10 then [digit_char k] else digits_of fuel (k div 10) @ [digit_char (k mod 10)])"

definition str_nat :: "nat \<Rightarrow> string" where
  "str_nat k = digits_of (Suc k) (int k)"

subsection \<open>The two patterns\<close>

text \<open>
  \<^verbatim>\<open>DATETIME_FIELD_PATTERN = ^(?P<date>\d{4}-\d{2}-\d{2})T(?P<time>\d{2}:\d{2}:\d{2})(?:\.(?P<fraction>\d{1,6}))?Z$\<close>
  and \<^verbatim>\<open>DATE_FIELD_PATTERN = ^(?P<date>\d{4}-\d{2}-\d{2})$\<close>. The value that
  \<^verbatim>\<open>format_utc_timestamp\<close> compares with \<^verbatim>\<open>is\<close> is the pattern object itself.
\<close>

datatype pattern = DATETIME_FIELD_PATTERN | DATE_FIELD_PATTERN

text \<open>
  A fixed-width template: \<^verbatim>\<open>d\<close> in the template stands for \<^verbatim>\<open>\d\<close>, every other character
  for itself.
\<close>

fun shaped :: "string \<Rightarrow> string \<Rightarrow> bool" where
  "shaped [] [] = True"
| "shaped (p # ps) (c # cs) = ((if p = CHR ''d'' then is_digit c else c = p) \<and> shaped ps cs)"
| "shaped _ _ = False"

text \<open>
  Without the flag \<^verbatim>\<open>re.MULTILINE\<close>, \<^verbatim>\<open>$\<close> matches at the end of the string and also just
  before a newline that is the last character of the string. Neither pattern can consume
  a newline, so a string matches \<^verbatim>\<open>^p$\<close> exactly when the string, or the string without its
  final newline, is a \<^verbatim>\<open>p\<close>.
\<close>

definition before_final_newline :: "string \<Rightarrow> string" where
  "before_final_newline s = (if s \<noteq> [] \<and> last s = CHR 0x0A then butlast s else s)"

text \<open>The groups \<^verbatim>\<open>date\<close>, \<^verbatim>\<open>time\<close> and \<^verbatim>\<open>fraction\<close> of a match (\<open>None\<close>: no match).\<close>

definition datetime_field_match :: "string \<Rightarrow> (string \<times> string \<times> string option) option" where
  "datetime_field_match v =
     (let s = before_final_newline v; rest = drop 19 s in
      if shaped ''dddd-dd-ddTdd:dd:dd'' (take 19 s) then
        if rest = ''Z'' then Some (take 10 s, take 8 (drop 11 s), None)
        else if 3 \<le> length rest \<and> length rest \<le> 8 \<and> hd rest = CHR ''.'' \<and> last rest = CHR ''Z''
                \<and> list_all is_digit (butlast (tl rest))
        then Some (take 10 s, take 8 (drop 11 s), Some (butlast (tl rest)))
        else None
      else None)"

definition date_field_match :: "string \<Rightarrow> string option" where
  "date_field_match v =
     (let s = before_final_newline v in if shaped ''dddd-dd-dd'' s then Some s else None)"

subsection \<open>The proleptic Gregorian calendar of \<^verbatim>\<open>datetime\<close>\<close>

type_synonym datetime = int
type_synonym timedelta = int

definition is_leap :: "int \<Rightarrow> bool" where
  "is_leap y \<longleftrightarrow> y mod 4 = 0 \<and> (y mod 100 \<noteq> 0 \<or> y mod 400 = 0)"

definition days_in_month :: "int \<Rightarrow> int \<Rightarrow> int" where
  "days_in_month y m =
     (if m = 2 then (if is_leap y then 29 else 28)
      else if m = 4 \<or> m = 6 \<or> m = 9 \<or> m = 11 then 30 else 31)"

text \<open>The days before January 1st of year \<open>y\<close>, for \<open>1 \<le> y\<close>.\<close>

definition days_before_year :: "int \<Rightarrow> int" where
  "days_before_year y = (y - 1) * 365 + (y - 1) div 4 - (y - 1) div 100 + (y - 1) div 400"

text \<open>The days of year \<open>y\<close> before the first day of month \<open>m\<close>.\<close>

definition days_before_month :: "int \<Rightarrow> int \<Rightarrow> int" where
  "days_before_month y m =
     (let l = (if is_leap y then 1 else 0) in
      if m \<le> 1 then 0 else if m = 2 then 31 else if m = 3 then 59 + l
      else if m = 4 then 90 + l else if m = 5 then 120 + l else if m = 6 then 151 + l
      else if m = 7 then 181 + l else if m = 8 then 212 + l else if m = 9 then 243 + l
      else if m = 10 then 273 + l else if m = 11 then 304 + l else 334 + l)"

text \<open>The ordinal of a date: January 1st of year 1 is day 1.\<close>

definition ymd2ord :: "int \<Rightarrow> int \<Rightarrow> int \<Rightarrow> int" where
  "ymd2ord y m d = days_before_year y + days_before_month y m + d"

text \<open>The month and day of the \<open>n\<close>-th day (from 0) of a year that is leap or not.\<close>

definition month_day :: "bool \<Rightarrow> int \<Rightarrow> int \<times> int" where
  "month_day leap n =
     (let l = (if leap then 1 else 0) in
      if n < 31 then (1, n + 1) else if n < 59 + l then (2, n - 30)
      else if n < 90 + l then (3, n - (58 + l)) else if n < 120 + l then (4, n - (89 + l))
      else if n < 151 + l then (5, n - (119 + l)) else if n < 181 + l then (6, n - (150 + l))
      else if n < 212 + l then (7, n - (180 + l)) else if n < 243 + l then (8, n - (211 + l))
      else if n < 273 + l then (9, n - (242 + l)) else if n < 304 + l then (10, n - (272 + l))
      else if n < 334 + l then (11, n - (303 + l)) else (12, n - (333 + l)))"

text \<open>
  The date of an ordinal, by the 400, 100, 4 and 1 year cycles of 146097, 36524, 1461 and
  365 days, for \<open>1 \<le> n\<close>. The last day of a 4 or 400 year cycle is December 31st of the
  year before the one the divisions give.
\<close>

definition ord2ymd :: "int \<Rightarrow> int \<times> int \<times> int" where
  "ord2ymd n =
     (let n0 = n - 1;
          n400 = n0 div 146097; r400 = n0 mod 146097;
          n100 = r400 div 36524; r100 = r400 mod 36524;
          n4 = r100 div 1461; r4 = r100 mod 1461;
          n1 = r4 div 365; r1 = r4 mod 365;
          year = n400 * 400 + 1 + n100 * 100 + n4 * 4 + n1
      in if n1 = 4 \<or> n100 = 4 then (year - 1, 12, 31)
         else (let (month, day) = month_day (n1 = 3 \<and> (n4 \<noteq> 24 \<or> n100 = 3)) r1
               in (year, month, day)))"

text \<open>\<^verbatim>\<open>datetime.max\<close> is the last microsecond of day 3652059, December 31st of 9999.\<close>

definition max_ordinal :: int where
  "max_ordinal = 3652059"

definition in_range :: "datetime \<Rightarrow> bool" where
  "in_range t \<longleftrightarrow> 0 \<le> t \<and> t < max_ordinal * 86400000000"

text \<open>The constructor \<^verbatim>\<open>datetime(y, m, d, hh, mm, ss, us, tzinfo=UTC)\<close> on valid fields.\<close>

definition mk_datetime :: "int \<Rightarrow> int \<Rightarrow> int \<Rightarrow> int \<Rightarrow> int \<Rightarrow> int \<Rightarrow> int \<Rightarrow> datetime" where
  "mk_datetime y m d hh mm ss us =
     ((ymd2ord y m d - 1) * 86400 + hh * 3600 + mm * 60 + ss) * 1000000 + us"

text \<open>The attributes of a datetime.\<close>

definition dt_date :: "datetime \<Rightarrow> int \<times> int \<times> int" where
  "dt_date t = ord2ymd (t div 86400000000 + 1)"

definition dt_hour :: "datetime \<Rightarrow> int" where
  "dt_hour t = t div 1000000 mod 86400 div 3600"

definition dt_minute :: "datetime \<Rightarrow> int" where
  "dt_minute t = t div 1000000 mod 3600 div 60"

definition dt_second :: "datetime \<Rightarrow> int" where
  "dt_second t = t div 1000000 mod 60"

definition dt_microsecond :: "datetime \<Rightarrow> int" where
  "dt_microsecond t = t mod 1000000"

text \<open>
  \<^verbatim>\<open>datetime + timedelta\<close> raises \<^verbatim>\<open>OverflowError\<close> when the sum leaves the range of
  \<^verbatim>\<open>datetime\<close>; \<^verbatim>\<open>datetime - datetime\<close> always fits a \<^verbatim>\<open>timedelta\<close>.
\<close>

definition dt_add :: "datetime \<Rightarrow> timedelta \<Rightarrow> error + datetime" where
  "dt_add t delta = (if in_range (t + delta) then Inr (t + delta) else Inl OverflowError)"

definition dt_sub :: "datetime \<Rightarrow> datetime \<Rightarrow> timedelta" where
  "dt_sub a b = a - b"

text \<open>
  \<^verbatim>\<open>datetime.fromisoformat\<close> on \<^verbatim>\<open>{date}T{time}.{fraction}+00:00\<close>, where the three parts have
  the shapes the patterns give them: the only failure left is a field out of range.
\<close>

definition fromisoformat :: "string \<Rightarrow> string \<Rightarrow> string \<Rightarrow> error + datetime" where
  "fromisoformat date time fraction =
     (let y = num (take 4 date); m = num (take 2 (drop 5 date)); d = num (take 2 (drop 8 date));
          hh = num (take 2 time); mm = num (take 2 (drop 3 time)); ss = num (take 2 (drop 6 time));
          us = num fraction
      in if 1 \<le> y \<and> 1 \<le> m \<and> m \<le> 12 \<and> 1 \<le> d \<and> d \<le> days_in_month y m
            \<and> hh < 24 \<and> mm < 60 \<and> ss < 60
         then Inr (mk_datetime y m d hh mm ss us) else Inl ValueError)"

subsection \<open>Parsing and rendering a timestamp\<close>

definition parse_utc_timestamp :: "string \<Rightarrow> error + (datetime \<times> pattern \<times> nat) option" where
  "parse_utc_timestamp v =
     (case datetime_field_match v of
        Some (date, time, frac) \<Rightarrow>
          (let fraction = (case frac of None \<Rightarrow> [] | Some f \<Rightarrow> f);
               padded_fraction = take 6 (fraction @ ''000000'')
           in case fromisoformat date time padded_fraction of
                Inl e \<Rightarrow> Inl e
              | Inr parsed \<Rightarrow> Inr (Some (parsed, DATETIME_FIELD_PATTERN, length fraction)))
      | None \<Rightarrow>
          (case date_field_match v of
             Some date \<Rightarrow>
               (case fromisoformat date ''00:00:00'' ''000000'' of
                  Inl e \<Rightarrow> Inl e
                | Inr parsed \<Rightarrow> Inr (Some (parsed, DATE_FIELD_PATTERN, 0)))
           | None \<Rightarrow> Inr None))"

text \<open>\<^verbatim>\<open>value.date().isoformat()\<close> and \<^verbatim>\<open>value.strftime("%Y-%m-%dT%H:%M:%S")\<close>.\<close>

definition date_isoformat :: "datetime \<Rightarrow> string" where
  "date_isoformat t =
     (let (y, m, d) = dt_date t in pad 4 y @ ''-'' @ pad 2 m @ ''-'' @ pad 2 d)"

definition strftime_seconds :: "datetime \<Rightarrow> string" where
  "strftime_seconds t =
     date_isoformat t @ ''T'' @ pad 2 (dt_hour t) @ '':'' @ pad 2 (dt_minute t)
       @ '':'' @ pad 2 (dt_second t)"

text \<open>
  The conversion \<^verbatim>\<open>value.astimezone(UTC)\<close> leaves a UTC datetime as it is, and every
  datetime of the script is one.
\<close>

definition format_utc_timestamp :: "datetime \<Rightarrow> pattern \<Rightarrow> nat \<Rightarrow> string" where
  "format_utc_timestamp v value_type fraction_len =
     (if value_type = DATE_FIELD_PATTERN then date_isoformat v
      else (let base = strftime_seconds v in
            if fraction_len > 0
            then base @ ''.'' @ take fraction_len (pad 6 (dt_microsecond v)) @ ''Z''
            else base @ ''Z''))"

subsection \<open>The fixture tree\<close>

text \<open>
  What \<^verbatim>\<open>json.loads\<close> returns: \<^verbatim>\<open>None\<close>, a \<^verbatim>\<open>bool\<close>, a number, a \<^verbatim>\<open>str\<close>, a \<^verbatim>\<open>list\<close> or a
  \<^verbatim>\<open>dict\<close> with string keys in insertion order. The script never looks into a number,
  which is kept as its literal.
\<close>

datatype json =
    JNull
  | JBool bool
  | JNumber string
  | JString string
  | JArray "json list"
  | JObject "(string \<times> json) list"

text \<open>
  The tree that \<^verbatim>\<open>json.loads\<close> builds shares no container, so a reference to a container
  is the path that leads to it from the root: the keys and indices to follow.
\<close>

datatype key = Key string | Index nat

type_synonym address = "key list"

text \<open>
  \<^verbatim>\<open>iter_string_nodes\<close>, given the address of \<open>value\<close>: the triples \<^verbatim>\<open>(container, key, item)\<close>
  in the order the generator yields them.
\<close>

fun iter_string_nodes :: "address \<Rightarrow> json \<Rightarrow> (address \<times> key \<times> string) list"
  and iter_items :: "address \<Rightarrow> (string \<times> json) list \<Rightarrow> (address \<times> key \<times> string) list"
  and iter_elems :: "address \<Rightarrow> nat \<Rightarrow> json list \<Rightarrow> (address \<times> key \<times> string) list"
where
  "iter_string_nodes a (JObject kvs) = iter_items a kvs"
| "iter_string_nodes a (JArray xs) = iter_elems a 0 xs"
| "iter_string_nodes a JNull = []"
| "iter_string_nodes a (JBool b) = []"
| "iter_string_nodes a (JNumber n) = []"
| "iter_string_nodes a (JString s) = []"
| "iter_items a [] = []"
| "iter_items a ((k, item) # kvs) =
     (case item of
        JString s \<Rightarrow> [(a, Key k, s)]
      | _ \<Rightarrow> iter_string_nodes (a @ [Key k]) item) @ iter_items a kvs"
| "iter_elems a idx [] = []"
| "iter_elems a idx (item # xs) =
     (case item of
        JString s \<Rightarrow> [(a, Index idx, s)]
      | _ \<Rightarrow> iter_string_nodes (a @ [Index idx]) item) @ iter_elems a (Suc idx) xs"

text \<open>The value at the end of a path, when the path exists in the tree.\<close>

fun get_at :: "key list \<Rightarrow> json \<Rightarrow> json option" where
  "get_at [] j = Some j"
| "get_at (Key k # p) (JObject kvs) =
     (case map_of kvs k of Some x \<Rightarrow> get_at p x | None \<Rightarrow> None)"
| "get_at (Index i # p) (JArray xs) = (if i < length xs then get_at p (xs ! i) else None)"
| "get_at (q # p) j = None"

text \<open>
  The tree after the value at the end of a path has been replaced. A path that does not
  exist in the tree leaves it as it is.
\<close>

fun set_at :: "key list \<Rightarrow> json \<Rightarrow> json \<Rightarrow> json"
  and set_items :: "string \<Rightarrow> key list \<Rightarrow> json \<Rightarrow> (string \<times> json) list \<Rightarrow> (string \<times> json) list"
  and set_elems :: "nat \<Rightarrow> key list \<Rightarrow> json \<Rightarrow> json list \<Rightarrow> json list"
where
  "set_at [] v j = v"
| "set_at (Key k # p) v (JObject kvs) = JObject (set_items k p v kvs)"
| "set_at (Index i # p) v (JArray xs) = JArray (set_elems i p v xs)"
| "set_at (q # p) v j = j"
| "set_items k p v [] = []"
| "set_items k p v ((k', x) # kvs) =
     (if k' = k then (k', set_at p v x) # kvs else (k', x) # set_items k p v kvs)"
| "set_elems i p v [] = []"
| "set_elems 0 p v (x # xs) = set_at p v x # xs"
| "set_elems (Suc i) p v (x # xs) = x # set_elems i p v xs"

text \<open>
  The assignment \<^verbatim>\<open>container[key] = v\<close> through a reference to a container of the tree
  \<open>root\<close>, where \<open>key\<close> is a key that the dictionary has or an index within the list.
\<close>

definition setitem :: "address \<Rightarrow> key \<Rightarrow> json \<Rightarrow> json \<Rightarrow> json" where
  "setitem container k v root = set_at (container @ [k]) v root"

subsection \<open>The updater\<close>

text \<open>An entry of \<^verbatim>\<open>found_dates\<close>: \<^verbatim>\<open>(container, key, dt, value_type, fraction_len)\<close>.\<close>

type_synonym found = "address \<times> key \<times> datetime \<times> pattern \<times> nat"

text \<open>
  The attributes of a \<^verbatim>\<open>FixtureUpdater\<close>, but for \<^verbatim>\<open>elapsed_ms\<close> (a reading of the
  performance counter, which no result depends on). In place of the two paths stand the
  files they name: \<open>fixture_file\<close> is what \<^verbatim>\<open>json.loads\<close> makes of the text of the fixture
  file, \<open>output_file\<close> the tree whose dump the output file holds (\<open>None\<close> as long as
  nothing has been written). \<open>clock\<close> is the instant that \<^verbatim>\<open>datetime.now(UTC)\<close> returns.
\<close>

record FixtureUpdater =
  fixture_file :: json
  output_file :: "json option"
  clock :: datetime
  target_latest_dt :: "datetime option"
  data :: json
  found_dates :: "found list"
  latest_dt :: "datetime option"
  latest_type :: "pattern option"
  latest_fraction_len :: nat
  delta :: "timedelta option"
  updated_count :: nat

definition init :: "json \<Rightarrow> datetime \<Rightarrow> datetime option \<Rightarrow> FixtureUpdater" where
  "init fixture now target =
     \<lparr> fixture_file = fixture, output_file = None, clock = now, target_latest_dt = target,
       data = JArray [], found_dates = [], latest_dt = None, latest_type = None,
       latest_fraction_len = 0, delta = None, updated_count = 0 \<rparr>"

text \<open>The loop of \<^verbatim>\<open>load_fixture\<close> over \<^verbatim>\<open>enumerate(data)\<close>, from index \<open>idx\<close> on.\<close>

fun check_items :: "nat \<Rightarrow> json list \<Rightarrow> error option" where
  "check_items idx [] = None"
| "check_items idx (item # rest) =
     (case item of
        JObject kvs \<Rightarrow>
          (case map_of kvs ''fields'' of
             Some (JObject fs) \<Rightarrow> check_items (Suc idx) rest
           | _ \<Rightarrow> Some (TypeError (''Fixture item at index '' @ str_nat idx
                                     @ '' is missing a valid \"fields\" object.'')))
      | _ \<Rightarrow> Some (TypeError (''Fixture item at index '' @ str_nat idx @ '' is not an object.'')))"

definition load_fixture :: "FixtureUpdater \<Rightarrow> (error + unit) \<times> FixtureUpdater" where
  "load_fixture self =
     (case fixture_file self of
        JArray items \<Rightarrow>
          (case check_items 0 items of
             Some e \<Rightarrow> (Inl e, self)
           | None \<Rightarrow> (Inr (), self\<lparr>data := JArray items\<rparr>))
      | _ \<Rightarrow> (Inl (TypeError ''Fixture JSON must be an array at the top level.''), self))"

text \<open>
  The inner loop of \<^verbatim>\<open>collect_dates\<close>: every node that parses is appended to the list; an
  exception of the parser leaves the list as far as it has grown.
\<close>

fun collect_nodes :: "(address \<times> key \<times> string) list \<Rightarrow> found list \<Rightarrow> error option \<times> found list" where
  "collect_nodes [] acc = (None, acc)"
| "collect_nodes ((container, k, item) # rest) acc =
     (case parse_utc_timestamp item of
        Inl e \<Rightarrow> (Some e, acc)
      | Inr None \<Rightarrow> collect_nodes rest acc
      | Inr (Some (dt, value_type, fraction_len)) \<Rightarrow>
          collect_nodes rest (acc @ [(container, k, dt, value_type, fraction_len)]))"

text \<open>
  The outer loop, from the object at index \<open>idx\<close> on. \<^verbatim>\<open>obj["fields"]\<close> raises on an object
  without the key and on a value that is no dictionary (the text of that message depends
  on the type of the value and is left empty).
\<close>

fun collect_objs :: "nat \<Rightarrow> json list \<Rightarrow> found list \<Rightarrow> error option \<times> found list" where
  "collect_objs idx [] acc = (None, acc)"
| "collect_objs idx (obj # rest) acc =
     (case obj of
        JObject kvs \<Rightarrow>
          (case map_of kvs ''fields'' of
             None \<Rightarrow> (Some (KeyError ''fields''), acc)
           | Some fs \<Rightarrow>
               (case collect_nodes (iter_string_nodes [Index idx, Key ''fields''] fs) acc of
                  (Some e, acc') \<Rightarrow> (Some e, acc')
                | (None, acc') \<Rightarrow> collect_objs (Suc idx) rest acc'))
      | _ \<Rightarrow> (Some (TypeError []), acc))"

definition collect_dates :: "FixtureUpdater \<Rightarrow> (error + unit) \<times> FixtureUpdater" where
  "collect_dates self =
     (case data self of
        JArray objs \<Rightarrow>
          (case collect_objs 0 objs (found_dates self) of
             (Some e, acc) \<Rightarrow> (Inl e, self\<lparr>found_dates := acc\<rparr>)
           | (None, acc) \<Rightarrow> (Inr (), self\<lparr>found_dates := acc\<rparr>))
      | _ \<Rightarrow> (Inl (TypeError []), self))"

text \<open>
  \<^verbatim>\<open>max(xs, key=f)\<close> on a list with first element \<open>best\<close>: the first element whose key no
  other exceeds.
\<close>

fun max_by :: "('a \<Rightarrow> int) \<Rightarrow> 'a \<Rightarrow> 'a list \<Rightarrow> 'a" where
  "max_by f best [] = best"
| "max_by f best (x # xs) = max_by f (if f best < f x then x else best) xs"

text \<open>\<^verbatim>\<open>itemgetter(2)\<close> on an entry of \<^verbatim>\<open>found_dates\<close>.\<close>

definition itemgetter2 :: "found \<Rightarrow> datetime" where
  "itemgetter2 e = fst (snd (snd e))"

text \<open>
  \<^verbatim>\<open>max\<close> raises \<^verbatim>\<open>ValueError\<close> on an empty list. A \<^verbatim>\<open>datetime\<close> is never false, so
  \<^verbatim>\<open>self.target_latest_dt or datetime.now(UTC)\<close> is the target whenever there is one.
\<close>

definition compute_shift :: "FixtureUpdater \<Rightarrow> (error + unit) \<times> FixtureUpdater" where
  "compute_shift self =
     (case found_dates self of
        [] \<Rightarrow> (Inl ValueError, self)
      | e # es \<Rightarrow>
          (case max_by itemgetter2 e es of
             (_, _, dt, value_type, fraction_len) \<Rightarrow>
               (let self1 = self\<lparr>latest_dt := Some dt, latest_type := Some value_type,
                                 latest_fraction_len := fraction_len\<rparr>;
                    target = (case target_latest_dt self1 of Some t \<Rightarrow> t | None \<Rightarrow> clock self1)
                in (Inr (), self1\<lparr>delta := Some (dt_sub target dt)\<rparr>))))"

text \<open>
  The loop of \<^verbatim>\<open>apply_shift\<close> over \<^verbatim>\<open>found_dates\<close>: an entry whose shifted datetime leaves
  the range of \<^verbatim>\<open>datetime\<close> raises, after the entries before it have been written.
\<close>

fun shift_entries :: "timedelta \<Rightarrow> found list \<Rightarrow> json \<Rightarrow> error option \<times> json" where
  "shift_entries d [] root = (None, root)"
| "shift_entries d ((container, k, dt, value_type, fraction_len) # rest) root =
     (case dt_add dt d of
        Inl e \<Rightarrow> (Some e, root)
      | Inr shifted \<Rightarrow>
          shift_entries d rest
            (setitem container k (JString (format_utc_timestamp shifted value_type fraction_len)) root))"

definition apply_shift :: "FixtureUpdater \<Rightarrow> (error + nat) \<times> FixtureUpdater" where
  "apply_shift self =
     (case delta self of
        None \<Rightarrow> (Inl (RuntimeError ''Cannot apply shift before computing delta.''), self)
      | Some d \<Rightarrow>
          (case shift_entries d (found_dates self) (data self) of
             (Some e, root) \<Rightarrow> (Inl e, self\<lparr>data := root\<rparr>)
           | (None, root) \<Rightarrow> (Inr (length (found_dates self)), self\<lparr>data := root\<rparr>)))"

definition write_output :: "FixtureUpdater \<Rightarrow> (error + unit) \<times> FixtureUpdater" where
  "write_output self = (Inr (), self\<lparr>output_file := Some (data self)\<rparr>)"

definition run :: "FixtureUpdater \<Rightarrow> (error + unit) \<times> FixtureUpdater" where
  "run self =
     (case load_fixture self of
        (Inl e, s1) \<Rightarrow> (Inl e, s1)
      | (Inr _, s1) \<Rightarrow>
          (case collect_dates s1 of
             (Inl e, s2) \<Rightarrow> (Inl e, s2)
           | (Inr _, s2) \<Rightarrow>
               if found_dates s2 = [] then (Inr (), s2)
               else (case compute_shift s2 of
                       (Inl e, s3) \<Rightarrow> (Inl e, s3)
                     | (Inr _, s3) \<Rightarrow>
                         (case apply_shift s3 of
                            (Inl e, s4) \<Rightarrow> (Inl e, s4)
                          | (Inr n, s4) \<Rightarrow> write_output (s4\<lparr>updated_count := n\<rparr>)))))"




subsection \<open>Notions that the properties are stated with\<close>

text \<open>
  An item that \<^verbatim>\<open>load_fixture\<close> accepts is an object whose key \<^verbatim>\<open>fields\<close> holds an object;
  \<open>item_message\<close> is the message of the error for an item that it rejects.
\<close>

definition is_object :: "json \<Rightarrow> bool" where
  "is_object j = (case j of JObject kvs \<Rightarrow> True | _ \<Rightarrow> False)"

definition valid_item :: "json \<Rightarrow> bool" where
  "valid_item item =
     (case item of
        JObject kvs \<Rightarrow> (case map_of kvs ''fields'' of Some (JObject fs) \<Rightarrow> True | _ \<Rightarrow> False)
      | _ \<Rightarrow> False)"

definition item_message :: "nat \<Rightarrow> json \<Rightarrow> string" where
  "item_message idx item =
     ''Fixture item at index '' @ str_nat idx
       @ (if is_object item then '' is missing a valid \"fields\" object.'' else '' is not an object.'')"

text \<open>The target of the shift: the time the caller has given, or else the clock.\<close>

definition target_time :: "FixtureUpdater \<Rightarrow> datetime" where
  "target_time self = (case target_latest_dt self of Some t \<Rightarrow> t | None \<Rightarrow> clock self)"




section \<open>Properties\<close>

subsection \<open>Applying before planning\<close>

text \<open>
  Claim C10. \<^verbatim>\<open>apply_shift\<close> on an updater whose \<^verbatim>\<open>delta\<close> is still unset raises the
  \<^verbatim>\<open>RuntimeError\<close> of its precondition check and leaves the updater, its tree included,
  as it was.
\<close>

theorem apply_shift_unset_delta:
  "delta self = None \<Longrightarrow>
     apply_shift self = (Inl (RuntimeError ''Cannot apply shift before computing delta.''), self)"
  by (simp add: apply_shift_def)

theorem apply_shift_unset_delta_witness:
  "delta (init (JArray [JObject [(''fields'', JObject [(''d'', JString ''2023-01-01'')])]]) 0 None
            \<lparr>found_dates := [([Index 0, Key ''fields''], Key ''d'', 5, DATE_FIELD_PATTERN, 0)]\<rparr>) = None
   \<and> apply_shift (init (JArray [JObject [(''fields'', JObject [(''d'', JString ''2023-01-01'')])]]) 0 None
            \<lparr>found_dates := [([Index 0, Key ''fields''], Key ''d'', 5, DATE_FIELD_PATTERN, 0)]\<rparr>)
     = (Inl (RuntimeError ''Cannot apply shift before computing delta.''),
        init (JArray [JObject [(''fields'', JObject [(''d'', JString ''2023-01-01'')])]]) 0 None
            \<lparr>found_dates := [([Index 0, Key ''fields''], Key ''d'', 5, DATE_FIELD_PATTERN, 0)]\<rparr>)"
  using apply_shift_unset_delta
    [of "init (JArray [JObject [(''fields'', JObject [(''d'', JString ''2023-01-01'')])]]) 0 None
            \<lparr>found_dates := [([Index 0, Key ''fields''], Key ''d'', 5, DATE_FIELD_PATTERN, 0)]\<rparr>"]
  by (simp add: init_def)

subsection \<open>Loading\<close>

lemma check_items_valid:
  "\<forall>item \<in> set items. valid_item item \<Longrightarrow> check_items idx items = None"
  by (induction items arbitrary: idx)
     (auto simp: valid_item_def split: json.splits option.splits)

lemma check_items_first_invalid:
  "i < length items \<Longrightarrow> \<not> valid_item (items ! i) \<Longrightarrow> (\<forall>j<i. valid_item (items ! j)) \<Longrightarrow>
     check_items idx items = Some (TypeError (item_message (idx + i) (items ! i)))"
proof (induction items arbitrary: idx i)
  case Nil
  then show ?case by simp
next
  case (Cons item rest)
  show ?case
  proof (cases i)
    case 0
    with Cons.prems show ?thesis
      by (auto simp: valid_item_def item_message_def is_object_def split: json.splits option.splits)
  next
    case (Suc i')
    from Cons.prems Suc have v: "valid_item item" by auto
    from Cons.prems Suc have "check_items (Suc idx) rest = Some (TypeError (item_message (Suc idx + i') (rest ! i')))"
      by (intro Cons.IH) auto
    with v Suc show ?thesis
      by (auto simp: valid_item_def split: json.splits option.splits)
  qed
qed

lemma max_by_mem: "max_by f b xs \<in> set (b # xs)"
  by (induction xs arbitrary: b) auto

lemma max_by_ge_init: "f b \<le> f (max_by f b xs)"
proof (induction xs arbitrary: b)
  case Nil then show ?case by simp
next
  case (Cons y ys)
  show ?case
  proof (cases "f b < f y")
    case True
    then show ?thesis using Cons.IH[of y] by simp
  next
    case False
    then show ?thesis using Cons.IH[of b] by simp
  qed
qed

lemma max_by_ge: "x \<in> set (b # xs) \<Longrightarrow> f x \<le> f (max_by f b xs)"
proof (induction xs arbitrary: b)
  case Nil then show ?case by simp
next
  case (Cons y ys)
  show ?case
  proof (cases "f b < f y")
    case True
    have "f y \<le> f (max_by f y ys)" by (rule max_by_ge_init)
    then show ?thesis using True Cons.prems Cons.IH[of y] by auto
  next
    case False
    have "f b \<le> f (max_by f b ys)" by (rule max_by_ge_init)
    then show ?thesis using False Cons.prems Cons.IH[of b] by auto
  qed
qed

lemma max_by_first:
  "\<exists>i<length (b # xs). max_by f b xs = (b # xs) ! i \<and> (\<forall>j<i. f ((b # xs) ! j) < f (max_by f b xs))"
proof (induction xs arbitrary: b)
  case Nil then show ?case by simp
next
  case (Cons y ys)
  show ?case
  proof (cases "f b < f y")
    case True
    from Cons.IH[of y] obtain i where i: "i < length (y # ys)" "max_by f y ys = (y # ys) ! i"
      "\<forall>j<i. f ((y # ys) ! j) < f (max_by f y ys)" by blast
    have ge: "f y \<le> f (max_by f y ys)" using max_by_ge[of y y ys f] by simp
    show ?thesis
    proof (intro exI[of _ "Suc i"] conjI allI impI)
      show "Suc i < length (b # y # ys)" using i by simp
      show "max_by f b (y # ys) = (b # y # ys) ! Suc i" using True i by simp
      fix j assume "j < Suc i"
      then show "f ((b # y # ys) ! j) < f (max_by f b (y # ys))"
        using True i(3) ge by (cases j) auto
    qed
  next
    case False
    from Cons.IH[of b] obtain i where i: "i < length (b # ys)" "max_by f b ys = (b # ys) ! i"
      "\<forall>j<i. f ((b # ys) ! j) < f (max_by f b ys)" by blast
    show ?thesis
    proof (cases i)
      case 0
      then show ?thesis using False i by (intro exI[of _ 0]) simp
    next
      case (Suc i')
      show ?thesis
      proof (intro exI[of _ "Suc i"] conjI allI impI)
        show "Suc i < length (b # y # ys)" using i by simp
        show "max_by f b (y # ys) = (b # y # ys) ! Suc i" using False i Suc by simp
        fix j assume j: "j < Suc i"
        have b0: "f b < f (max_by f b ys)" using i(3) Suc by (auto dest: spec[of _ 0])
        show "f ((b # y # ys) ! j) < f (max_by f b (y # ys))"
        proof (cases j)
          case 0 then show ?thesis using False b0 by simp
        next
          case (Suc j')
          show ?thesis
          proof (cases j')
            case 0 then show ?thesis using False b0 Suc by simp
          next
            case (Suc j'')
            have "j' < i" using j \<open>j = Suc j'\<close> by simp
            with i(3) have "f ((b # ys) ! j') < f (max_by f b ys)" by blast
            then show ?thesis using False \<open>j = Suc j'\<close> Suc by simp
          qed
        qed
      qed
    qed
  qed
qed

lemma load_fixture_init_valid:
  "\<forall>item \<in> set items. valid_item item \<Longrightarrow>
     load_fixture (init (JArray items) now target) = (Inr (), (init (JArray items) now target)\<lparr>data := JArray items\<rparr>)"
  by (simp add: load_fixture_def init_def check_items_valid)

text \<open>
  Claim C6. A fixture whose top-level value is not an array, or that has an item which is
  not an object or whose \<^verbatim>\<open>fields\<close> is missing or not an object, makes the run raise a
  \<^verbatim>\<open>TypeError\<close>; for an item the message names the index of the first such item. The
  updater is then as it was created: nothing has been scanned (\<open>found_dates\<close> is empty) and
  nothing has been written (\<open>output_file\<close> is \<open>None\<close>).
\<close>

theorem run_structural_error:
  "((\<forall>items. fixture \<noteq> JArray items) \<longrightarrow>
      run (init fixture now target)
        = (Inl (TypeError ''Fixture JSON must be an array at the top level.''),
           init fixture now target))
   \<and> (\<forall>items i. fixture = JArray items \<and> i < length items \<and> \<not> valid_item (items ! i)
          \<and> (\<forall>j<i. valid_item (items ! j)) \<longrightarrow>
        run (init fixture now target)
          = (Inl (TypeError (item_message i (items ! i))), init fixture now target))"
proof (intro conjI impI allI)
  assume "\<forall>items. fixture \<noteq> JArray items"
  then show "run (init fixture now target)
        = (Inl (TypeError ''Fixture JSON must be an array at the top level.''),
           init fixture now target)"
    by (cases fixture) (simp_all add: run_def load_fixture_def init_def)
next
  fix items i
  assume a: "fixture = JArray items \<and> i < length items \<and> \<not> valid_item (items ! i)
          \<and> (\<forall>j<i. valid_item (items ! j))"
  then have "check_items 0 items = Some (TypeError (item_message (0 + i) (items ! i)))"
    by (intro check_items_first_invalid) auto
  with a show "run (init fixture now target)
          = (Inl (TypeError (item_message i (items ! i))), init fixture now target)"
    by (simp add: run_def load_fixture_def init_def)
qed

theorem run_structural_error_witness:
  "run (init (JObject [(''fields'', JObject [])]) 0 None)
     = (Inl (TypeError ''Fixture JSON must be an array at the top level.''),
        init (JObject [(''fields'', JObject [])]) 0 None)
   \<and> 1 < length [JObject [(''fields'', JObject [])], JObject [(''model'', JString ''m'')]]
   \<and> \<not> valid_item ([JObject [(''fields'', JObject [])], JObject [(''model'', JString ''m'')]] ! 1)
   \<and> valid_item ([JObject [(''fields'', JObject [])], JObject [(''model'', JString ''m'')]] ! 0)
   \<and> run (init (JArray [JObject [(''fields'', JObject [])], JObject [(''model'', JString ''m'')]]) 0 None)
     = (Inl (TypeError ''Fixture item at index 1 is missing a valid \"fields\" object.''),
        init (JArray [JObject [(''fields'', JObject [])], JObject [(''model'', JString ''m'')]]) 0 None)"
proof -
  have v: "1 < length [JObject [(''fields'', JObject [])], JObject [(''model'', JString ''m'')]]
     \<and> \<not> valid_item ([JObject [(''fields'', JObject [])], JObject [(''model'', JString ''m'')]] ! 1)
     \<and> valid_item ([JObject [(''fields'', JObject [])], JObject [(''model'', JString ''m'')]] ! 0)"
    by (simp add: valid_item_def)
  have m: "item_message 1 ([JObject [(''fields'', JObject [])], JObject [(''model'', JString ''m'')]] ! 1)
             = ''Fixture item at index 1 is missing a valid \"fields\" object.''"
    by code_simp
  from run_structural_error [of "JObject [(''fields'', JObject [])]" 0 None]
  have t: "run (init (JObject [(''fields'', JObject [])]) 0 None)
     = (Inl (TypeError ''Fixture JSON must be an array at the top level.''),
        init (JObject [(''fields'', JObject [])]) 0 None)"
    by simp
  from run_structural_error
         [of "JArray [JObject [(''fields'', JObject [])], JObject [(''model'', JString ''m'')]]" 0 None]
       v m
  have "run (init (JArray [JObject [(''fields'', JObject [])], JObject [(''model'', JString ''m'')]]) 0 None)
     = (Inl (TypeError ''Fixture item at index 1 is missing a valid \"fields\" object.''),
        init (JArray [JObject [(''fields'', JObject [])], JObject [(''model'', JString ''m'')]]) 0 None)"
    by (auto simp: less_Suc_eq)
  with t v show ?thesis by blast
qed

subsection \<open>Planning\<close>

lemma compute_shift_first_max:
  assumes "found_dates self \<noteq> []"
  shows "\<exists>i<length (found_dates self). \<exists>c k dt ty fl.
           found_dates self ! i = (c, k, dt, ty, fl)
         \<and> (\<forall>e \<in> set (found_dates self). itemgetter2 e \<le> dt)
         \<and> (\<forall>j<i. itemgetter2 (found_dates self ! j) < dt)
         \<and> compute_shift self
             = (Inr (), self\<lparr>latest_dt := Some dt, latest_type := Some ty,
                               latest_fraction_len := fl,
                               delta := Some (dt_sub (target_time self) dt)\<rparr>)"
proof -
  from assms obtain e es where fs: "found_dates self = e # es" by (cases "found_dates self") auto
  obtain i where i: "i < length (e # es)" "max_by itemgetter2 e es = (e # es) ! i"
     "\<forall>j<i. itemgetter2 ((e # es) ! j) < itemgetter2 (max_by itemgetter2 e es)"
    using max_by_first[of e es itemgetter2] by blast
  obtain c k dt ty fl where m: "max_by itemgetter2 e es = (c, k, dt, ty, fl)"
    by (cases "max_by itemgetter2 e es") auto
  have dt: "itemgetter2 (max_by itemgetter2 e es) = dt" by (simp add: m itemgetter2_def)
  have ge: "\<forall>x \<in> set (e # es). itemgetter2 x \<le> dt"
    using max_by_ge[of _ e es itemgetter2] dt by auto
  have cs: "compute_shift self
             = (Inr (), self\<lparr>latest_dt := Some dt, latest_type := Some ty,
                               latest_fraction_len := fl,
                               delta := Some (dt_sub (target_time self) dt)\<rparr>)"
    using fs m by (simp add: compute_shift_def target_time_def Let_def split: option.splits)
  have a1: "i < length (found_dates self)" using i(1) fs by simp
  have a2: "found_dates self ! i = (c, k, dt, ty, fl)" using i(2) m fs by simp
  have a3: "\<forall>e \<in> set (found_dates self). itemgetter2 e \<le> dt" using ge fs by simp
  have a4: "\<forall>j<i. itemgetter2 (found_dates self ! j) < dt" using i(3) dt fs by simp
  from a1 a2 a3 a4 cs show ?thesis by blast
qed

lemma Max_found:
  assumes "e \<in> set fs" "\<forall>x \<in> set fs. itemgetter2 x \<le> itemgetter2 e"
  shows "Max (itemgetter2 ` set fs) = itemgetter2 e"
  using assms by (intro Max_eqI) auto


text \<open>
  Claim C7. On a non-empty \<^verbatim>\<open>found_dates\<close> the planner takes the entry with the greatest
  instant, and among several with that instant the first in the order of the traversal
  (every entry before it is strictly earlier): its instant, pattern and fraction length
  become \<^verbatim>\<open>latest_dt\<close>, \<^verbatim>\<open>latest_type\<close> and \<^verbatim>\<open>latest_fraction_len\<close>. The delta is the target
  minus the maximum of the instants, whichever entry holds it.
\<close>

theorem compute_shift_selects_first_maximum:
  assumes "found_dates self \<noteq> []"
  shows "\<exists>i<length (found_dates self). \<exists>c k dt ty fl.
           found_dates self ! i = (c, k, dt, ty, fl)
         \<and> (\<forall>e \<in> set (found_dates self). itemgetter2 e \<le> dt)
         \<and> (\<forall>j<i. itemgetter2 (found_dates self ! j) < dt)
         \<and> compute_shift self
             = (Inr (), self\<lparr>latest_dt := Some dt, latest_type := Some ty,
                               latest_fraction_len := fl,
                               delta := Some (dt_sub (target_time self)
                                         (Max (itemgetter2 ` set (found_dates self))))\<rparr>)"
proof -
  from compute_shift_first_max[OF assms] obtain i c k dt ty fl where
    h: "i < length (found_dates self)" "found_dates self ! i = (c, k, dt, ty, fl)"
       "\<forall>e \<in> set (found_dates self). itemgetter2 e \<le> dt"
       "\<forall>j<i. itemgetter2 (found_dates self ! j) < dt"
       "compute_shift self
             = (Inr (), self\<lparr>latest_dt := Some dt, latest_type := Some ty,
                               latest_fraction_len := fl,
                               delta := Some (dt_sub (target_time self) dt)\<rparr>)"
    by blast
  have mem: "(c, k, dt, ty, fl) \<in> set (found_dates self)" using h(1,2) nth_mem by metis
  have "Max (itemgetter2 ` set (found_dates self)) = itemgetter2 (c, k, dt, ty, fl)"
    using mem h(3) by (intro Max_found) (auto simp: itemgetter2_def)
  then have "Max (itemgetter2 ` set (found_dates self)) = dt" by (simp add: itemgetter2_def)
  with h show ?thesis by metis
qed

theorem compute_shift_selects_first_maximum_witness:
  "found_dates ((init (JArray []) 100 None)
           \<lparr>found_dates := [([Index 0, Key ''fields''], Key ''a'', 5, DATE_FIELD_PATTERN, 0),
                            ([Index 0, Key ''fields''], Key ''b'', 9, DATETIME_FIELD_PATTERN, 3),
                            ([Index 1, Key ''fields''], Key ''a'', 9, DATE_FIELD_PATTERN, 0)]\<rparr>) \<noteq> []
   \<and> (\<exists>s. compute_shift ((init (JArray []) 100 None)
           \<lparr>found_dates := [([Index 0, Key ''fields''], Key ''a'', 5, DATE_FIELD_PATTERN, 0),
                            ([Index 0, Key ''fields''], Key ''b'', 9, DATETIME_FIELD_PATTERN, 3),
                            ([Index 1, Key ''fields''], Key ''a'', 9, DATE_FIELD_PATTERN, 0)]\<rparr>) = (Inr (), s)
        \<and> latest_dt s = Some 9 \<and> latest_type s = Some DATETIME_FIELD_PATTERN
        \<and> latest_fraction_len s = 3 \<and> delta s = Some 91)"
  using compute_shift_selects_first_maximum
    [of "(init (JArray []) 100 None)
           \<lparr>found_dates := [([Index 0, Key ''fields''], Key ''a'', 5, DATE_FIELD_PATTERN, 0),
                            ([Index 0, Key ''fields''], Key ''b'', 9, DATETIME_FIELD_PATTERN, 3),
                            ([Index 1, Key ''fields''], Key ''a'', 9, DATE_FIELD_PATTERN, 0)]\<rparr>"]
  by (simp add: compute_shift_def init_def itemgetter2_def dt_sub_def)



subsection \<open>Applying\<close>



subsection \<open>Scanning\<close>






subsection \<open>What the parser accepts\<close>

text \<open>
  Claim C8. The parser is to recognise the two shapes as whole strings and nothing else.
  The code at two inputs: the ten characters of a date followed by a newline are
  recognised as a date, although the string is not of the shape \<^verbatim>\<open>YYYY-MM-DD\<close>; and a
  string of that shape that names no day of the calendar is neither parsed nor reported
  as not recognised, the parser raises \<^verbatim>\<open>ValueError\<close>.
\<close>

theorem parse_accepts_final_newline:
  "parse_utc_timestamp (''2023-01-01'' @ [CHR 0x0A])
     = Inr (Some (mk_datetime 2023 1 1 0 0 0 0, DATE_FIELD_PATTERN, 0))
   \<and> parse_utc_timestamp ''2023-02-30'' = Inl ValueError"
  by code_simp

end
